theory Spec2Isabelle
  imports Main "HOL-Library.Word"
begin

unbundle bit_operations_syntax

section \<open>Data model of user\_main.c\<close>

text \<open>
  The C types of the source: \<open>uint8\<close> and \<open>char\<close> are 8-bit words (\<open>sint8\<close> is an
  8-bit word read with \<open>sint\<close>), \<open>uint32\<close> and the promoted \<open>int\<close> masks handed to the
  GPIO routine are 32-bit words.
\<close>

type_synonym u8 = "8 word"
type_synonym s8 = "8 word"
type_synonym u32 = "32 word"

text \<open>The calls of \<open>OS_UART_LOG\<close> made by the handlers, one constructor per call site.\<close>

datatype log_event =
    LOG_data_received nat
  | LOG_package_content "u8 list"
  | LOG_digit_key u8
  | LOG_reconnect s8
  | LOG_disconnect
  | LOG_accepted
  | LOG_wifi_sessions u8

text \<open>
  The file-scope variables of the source (\<open>tick_index\<close>, \<open>client_connection_state\<close>,
  \<open>prev_wifi_sessions_num\<close>, \<open>open_tcp_connections\<close>) together with the platform
  resources the handlers act on: the GPIO output and output-enable registers, the list of
  \<open>gpio_output_set\<close> calls made so far (their four arguments, oldest first), the UART log
  stream, and the build switch \<open>UART_DEBUG_LOGS\<close>.
\<close>

record state =
  tick_index :: u32
  client_connection_state :: u8
  prev_wifi_sessions_num :: u8
  open_tcp_connections :: s8
  gpio_out :: u32
  gpio_enable :: u32
  gpio_calls :: "(u32 \<times> u32 \<times> u32 \<times> u32) list"
  uart :: "log_event list"
  uart_debug_logs :: bool

definition STATE_DISCONNECTED :: u8 where
  "STATE_DISCONNECTED = 0"

definition STATE_CLIENT_WIFI_CONNECTED :: u8 where
  "STATE_CLIENT_WIFI_CONNECTED = 1"

definition STATE_CLIENT_SOCKET_CONNECTED :: u8 where
  "STATE_CLIENT_SOCKET_CONNECTED = 2"

definition TIMER_PERIOD_STATE_UPDATE :: u32 where
  "TIMER_PERIOD_STATE_UPDATE = 50"

definition TIMER_PERIOD_WIFI_STATUS_LED :: u32 where
  "TIMER_PERIOD_WIFI_STATUS_LED = 5"

definition TIMER_PERIOD_RESET :: u32 where
  "TIMER_PERIOD_RESET = 1000000"

definition CHAR_DIGITS_START :: u8 where
  "CHAR_DIGITS_START = 0x30"

definition CHAR_DIGITS_END :: u8 where
  "CHAR_DIGITS_END = 0x37"

definition GPIO_PIN_LED_INT :: nat where
  "GPIO_PIN_LED_INT = 2"

definition GPIO_PIN_LED_1 :: nat where
  "GPIO_PIN_LED_1 = 12"

definition GPIO_PIN_LED_2 :: nat where
  "GPIO_PIN_LED_2 = 13"

definition GPIO_PIN_LED_3 :: nat where
  "GPIO_PIN_LED_3 = 14"

text \<open>The static initialisers of the source; the GPIO registers are whatever the hardware holds.\<close>

definition initial_state :: "u32 \<Rightarrow> u32 \<Rightarrow> bool \<Rightarrow> state" where
  "initial_state out en dbg =
     \<lparr>tick_index = 0, client_connection_state = STATE_DISCONNECTED,
      prev_wifi_sessions_num = 0, open_tcp_connections = 0,
      gpio_out = out, gpio_enable = en, gpio_calls = [], uart = [],
      uart_debug_logs = dbg\<rparr>"

section \<open>Platform collaborators\<close>

text \<open>
  Modelled from the spec: the SDK routine \<open>gpio_output_set(set_mask, clear_mask,
  enable_mask, disable_mask)\<close> is not part of the sources; it is the spec's bulk atomic pin
  write. The pins of \<open>set_mask\<close> are driven high, then the pins of \<open>clear_mask\<close> are
  driven low, all other output pins keep their level; likewise the output-enable register
  with \<open>enable_mask\<close> and \<open>disable_mask\<close>. Every call is recorded.
\<close>

definition gpio_output_set :: "u32 \<Rightarrow> u32 \<Rightarrow> u32 \<Rightarrow> u32 \<Rightarrow> state \<Rightarrow> state" where
  "gpio_output_set set_mask clear_mask enable_mask disable_mask st =
     st\<lparr>gpio_out := (gpio_out st OR set_mask) AND NOT clear_mask,
        gpio_enable := (gpio_enable st OR enable_mask) AND NOT disable_mask,
        gpio_calls := gpio_calls st @ [(set_mask, clear_mask, enable_mask, disable_mask)]\<rparr>"

text \<open>
  Modelled from the spec: the macro \<open>OS_UART_LOG\<close> is declared in \<open>mod_enums.h\<close>, which is
  not part of the sources; it is the spec's \<open>log(level, message)\<close>, appending one event to
  the operator-visible diagnostic stream.
\<close>

definition OS_UART_LOG :: "log_event \<Rightarrow> state \<Rightarrow> state" where
  "OS_UART_LOG ev st = st\<lparr>uart := uart st @ [ev]\<rparr>"

section \<open>The digit decoder\<close>

text \<open>
  \<open>process_digit_key\<close>: \<open>uint8 num = (digit - CHAR_DIGITS_START) & 0x07\<close>, one log call,
  then one bulk write that raises the three command pins and lowers those whose bit of
  \<open>num\<close> is clear.
\<close>

definition digit_num :: "u8 \<Rightarrow> u8" where
  "digit_num digit = (digit - CHAR_DIGITS_START) AND 0x07"

definition process_digit_key :: "u8 \<Rightarrow> state \<Rightarrow> state" where
  "process_digit_key digit st =
     (let num = digit_num digit;
          st1 = OS_UART_LOG (LOG_digit_key num) st
      in gpio_output_set (push_bit GPIO_PIN_LED_1 0x07)
           (push_bit GPIO_PIN_LED_1 (ucast (num XOR 0x07))) 0 0 st1)"

text \<open>
  The level of the three command pins as a 3-bit pattern: bit \<open>i\<close> is the level of command
  LED \<open>i\<close> (pins 12, 13, 14); a high pin lights its LED (\<open>'7'\<close>: all LEDs are on).
\<close>

definition command_leds :: "state \<Rightarrow> u8" where
  "command_leds st = ucast (drop_bit GPIO_PIN_LED_1 (gpio_out st)) AND 0x07"

text \<open>
  The status LED (pin 2) is wired active-low: the source lowers the pin where its header
  comment says "LED on" and raises it where the comment says "LED off".
\<close>

definition status_led_on :: "state \<Rightarrow> bool" where
  "status_led_on st = (\<not> bit (gpio_out st) GPIO_PIN_LED_INT)"

section \<open>The TCP callbacks\<close>

text \<open>
  The loop of \<open>on_tcp_server_receive\<close>:
  \<open>for (idx = length; idx > 0 && !last_char; --idx)\<close>. The body reads
  \<open>pusrdata[idx - 1]\<close> into \<open>last_char\<close>, dispatches it when it lies in
  \<open>CHAR_DIGITS_START .. CHAR_DIGITS_END\<close> and otherwise resets \<open>last_char\<close> to 0.
\<close>

fun receive_loop :: "u8 list \<Rightarrow> nat \<Rightarrow> u8 \<Rightarrow> state \<Rightarrow> state" where
  "receive_loop pusrdata idx last_char st =
     (if 0 < idx \<and> last_char = 0 then
        (let c = pusrdata ! (idx - 1) in
         if CHAR_DIGITS_START \<le> c \<and> c \<le> CHAR_DIGITS_END
         then receive_loop pusrdata (idx - 1) c (process_digit_key c st)
         else receive_loop pusrdata (idx - 1) 0 st)
      else st)"

declare receive_loop.simps [simp del]

text \<open>
  \<open>on_tcp_server_receive\<close>: the received buffer is the list \<open>pusrdata\<close>, its byte count
  \<open>length\<close> is the length of the list (an \<open>unsigned short\<close>, so at most 65535 bytes).
  The callback starts with its log calls: the byte count and, with \<open>UART_DEBUG_LOGS\<close>,
  the package printed with \<open>%s\<close>, that is up to its first NUL byte.
\<close>

definition on_tcp_server_receive_logs :: "u8 list \<Rightarrow> state \<Rightarrow> state" where
  "on_tcp_server_receive_logs pusrdata st =
     (let st1 = OS_UART_LOG (LOG_data_received (length pusrdata)) st
      in if uart_debug_logs st1
         then OS_UART_LOG (LOG_package_content (takeWhile (\<lambda>b. b \<noteq> 0) pusrdata)) st1
         else st1)"

definition on_tcp_server_receive :: "u8 list \<Rightarrow> state \<Rightarrow> state" where
  "on_tcp_server_receive pusrdata st =
     (let st1 = on_tcp_server_receive_logs pusrdata st
      in if length pusrdata \<noteq> 0
         then receive_loop pusrdata (length pusrdata) 0 st1
         else st1)"

definition on_tcp_server_reconnect :: "s8 \<Rightarrow> state \<Rightarrow> state" where
  "on_tcp_server_reconnect err st = OS_UART_LOG (LOG_reconnect err) st"

definition on_tcp_server_disconnect :: "state \<Rightarrow> state" where
  "on_tcp_server_disconnect st =
     (let st1 = OS_UART_LOG LOG_disconnect st
      in st1\<lparr>open_tcp_connections := open_tcp_connections st1 - 1\<rparr>)"

definition on_tcp_server_accepted :: "state \<Rightarrow> state" where
  "on_tcp_server_accepted st =
     (let st1 = OS_UART_LOG LOG_accepted st
      in st1\<lparr>open_tcp_connections := open_tcp_connections st1 + 1\<rparr>)"

section \<open>The timer callback\<close>

text \<open>
  \<open>on_timer\<close> is three consecutive blocks. The first, guarded by
  \<open>tick_index % TIMER_PERIOD_STATE_UPDATE == 0\<close>, takes the result of
  \<open>wifi_softap_get_station_num()\<close> as its argument \<open>wifi_sessions_num\<close>.
\<close>

definition on_timer_state_update :: "u8 \<Rightarrow> state \<Rightarrow> state" where
  "on_timer_state_update wifi_sessions_num st =
     (if tick_index st mod TIMER_PERIOD_STATE_UPDATE = 0 then
        (let st1 = (if wifi_sessions_num \<noteq> prev_wifi_sessions_num st
                    then (OS_UART_LOG (LOG_wifi_sessions wifi_sessions_num) st)
                           \<lparr>prev_wifi_sessions_num := wifi_sessions_num\<rparr>
                    else st)
         in if wifi_sessions_num \<noteq> 0 then
              (if open_tcp_connections st1 \<noteq> 0
               then st1\<lparr>client_connection_state := STATE_CLIENT_SOCKET_CONNECTED\<rparr>
               else st1\<lparr>client_connection_state := STATE_CLIENT_WIFI_CONNECTED\<rparr>)
            else st1\<lparr>client_connection_state := STATE_DISCONNECTED,
                     open_tcp_connections := 0\<rparr>)
      else st)"

text \<open>The second block, guarded by \<open>tick_index % TIMER_PERIOD_WIFI_STATUS_LED == 0\<close>.\<close>

definition on_timer_status_led :: "state \<Rightarrow> state" where
  "on_timer_status_led st =
     (if tick_index st mod TIMER_PERIOD_WIFI_STATUS_LED = 0 then
        (if client_connection_state st = STATE_CLIENT_SOCKET_CONNECTED
         then gpio_output_set 0 (push_bit GPIO_PIN_LED_INT 1) 0 0 st
         else if client_connection_state st = STATE_CLIENT_WIFI_CONNECTED then
           (if gpio_out st AND push_bit GPIO_PIN_LED_INT 1 \<noteq> 0
            then gpio_output_set 0 (push_bit GPIO_PIN_LED_INT 1) 0 0 st
            else gpio_output_set (push_bit GPIO_PIN_LED_INT 1) 0 0 0 st)
         else gpio_output_set (push_bit GPIO_PIN_LED_INT 1) 0 0 0 st)
      else st)"

text \<open>The last block: \<open>tick_index++\<close>, reset to 0 once \<open>TIMER_PERIOD_RESET\<close> is reached.\<close>

definition on_timer_advance :: "state \<Rightarrow> state" where
  "on_timer_advance st =
     (let st1 = st\<lparr>tick_index := tick_index st + 1\<rparr>
      in if TIMER_PERIOD_RESET \<le> tick_index st1 then st1\<lparr>tick_index := 0\<rparr> else st1)"

definition on_timer :: "u8 \<Rightarrow> state \<Rightarrow> state" where
  "on_timer wifi_sessions_num st =
     on_timer_advance (on_timer_status_led (on_timer_state_update wifi_sessions_num st))"

section \<open>The event loop\<close>

text \<open>
  The platform runs the callbacks one at a time. An event is one callback invocation with
  what the platform hands it: the station count read by a timer tick, the error code of a
  reconnect, the buffer of a receive.
\<close>

datatype event =
    Timer u8
  | Accepted
  | Disconnect
  | Reconnect s8
  | Receive "u8 list"

fun dispatch :: "state \<Rightarrow> event \<Rightarrow> state" where
  "dispatch st (Timer wifi_sessions_num) = on_timer wifi_sessions_num st"
| "dispatch st Accepted = on_tcp_server_accepted st"
| "dispatch st Disconnect = on_tcp_server_disconnect st"
| "dispatch st (Reconnect err) = on_tcp_server_reconnect err st"
| "dispatch st (Receive pusrdata) = on_tcp_server_receive pusrdata st"

definition run :: "state \<Rightarrow> event list \<Rightarrow> state" where
  "run st evs = foldl dispatch st evs"

section \<open>Notions used by the properties\<close>

text \<open>The range test of the receive loop, and the three command pins as one mask.\<close>

definition digit_key :: "u8 \<Rightarrow> bool" where
  "digit_key c = (CHAR_DIGITS_START \<le> c \<and> c \<le> CHAR_DIGITS_END)"

definition command_pins :: u32 where
  "command_pins =
     push_bit GPIO_PIN_LED_1 1 OR push_bit GPIO_PIN_LED_2 1 OR push_bit GPIO_PIN_LED_3 1"

text \<open>
  The receive policy in the words of the specification: the first byte in \<open>'0'..'7'\<close>
  found scanning the buffer backward from its last byte, if there is one.
\<close>

definition first_digit_backward :: "u8 list \<Rightarrow> u8 option" where
  "first_digit_backward pusrdata = find digit_key (rev pusrdata)"

text \<open>
  Whether a tick enters a guarded block of \<open>on_timer\<close>, read off what the tick does.
  The state-update block is the only reader of the station count handed to the tick, and
  it stores that count in \<open>prev_wifi_sessions_num\<close>: the block is entered exactly when
  the outcome of the tick depends on the count it is handed. The status-LED block is the
  only part of \<open>on_timer\<close> that calls \<open>gpio_output_set\<close>, once per entry: the number of
  calls a tick adds is the number of times the block ran in it.
\<close>

definition state_update_entered :: "u8 \<Rightarrow> state \<Rightarrow> bool" where
  "state_update_entered wifi_sessions_num st =
     (on_timer wifi_sessions_num st \<noteq> on_timer (wifi_sessions_num + 1) st)"

definition status_led_writes :: "u8 \<Rightarrow> state \<Rightarrow> nat" where
  "status_led_writes wifi_sessions_num st =
     length (gpio_calls (on_timer wifi_sessions_num st)) - length (gpio_calls st)"

text \<open>
  How often each block runs while a list of events is dispatched: every timer tick of the
  list is looked at in the state in which it is dispatched, with the station count it
  carries.
\<close>

fun state_update_fires :: "state \<Rightarrow> event list \<Rightarrow> nat" where
  "state_update_fires st [] = 0"
| "state_update_fires st (Timer s # evs) =
     (if state_update_entered s st then 1 else 0)
       + state_update_fires (dispatch st (Timer s)) evs"
| "state_update_fires st (ev # evs) = state_update_fires (dispatch st ev) evs"

fun status_led_fires :: "state \<Rightarrow> event list \<Rightarrow> nat" where
  "status_led_fires st [] = 0"
| "status_led_fires st (Timer s # evs) =
     status_led_writes s st + status_led_fires (dispatch st (Timer s)) evs"
| "status_led_fires st (ev # evs) = status_led_fires (dispatch st ev) evs"

fun is_timer :: "event \<Rightarrow> bool" where
  "is_timer (Timer s) = True"
| "is_timer ev = False"

definition timer_ticks :: "event list \<Rightarrow> nat" where
  "timer_ticks evs = length (filter is_timer evs)"

text \<open>No event of the list enters the state-update block when dispatched from \<open>st\<close> on.\<close>

fun no_state_update :: "state \<Rightarrow> event list \<Rightarrow> bool" where
  "no_state_update st [] = True"
| "no_state_update st (Timer s # evs) =
     (tick_index st mod TIMER_PERIOD_STATE_UPDATE \<noteq> 0
      \<and> no_state_update (dispatch st (Timer s)) evs)"
| "no_state_update st (ev # evs) = no_state_update (dispatch st ev) evs"

text \<open>
  A trace with as many disconnects as accepts: a client's socket is accepted, the station
  leaves (a state-update tick reads zero sessions), the socket's disconnect arrives, and 49
  ticks later a station is back.
\<close>

definition drift_trace :: "event list" where
  "drift_trace = [Accepted, Timer 0, Disconnect] @ replicate 49 (Timer 1)"

section \<open>The digit decoder: what one call does\<close>

lemma seven_mask: "(7 :: 'a::len word) = mask 3"
  by (simp add: mask_eq_exp_minus_1)

lemma command_pins_mask: "command_pins = push_bit 12 (mask 3)"
  by (simp add: command_pins_def GPIO_PIN_LED_1_def GPIO_PIN_LED_2_def GPIO_PIN_LED_3_def
      mask_eq_exp_minus_1)

lemma bit_digit_num: "bit (digit_num c) i \<Longrightarrow> i < 3"
  by (simp add: digit_num_def seven_mask bit_simps)

lemma digit_num_le: "unat (digit_num c) \<le> 7"
proof -
  have "digit_num c \<le> 7" unfolding digit_num_def by (rule word_and_le1)
  then show ?thesis by (simp add: word_le_nat_alt)
qed

lemma gpio_out_process_digit_key:
  "gpio_out (process_digit_key c st) =
     (gpio_out st OR push_bit 12 (mask 3)) AND NOT (push_bit 12 (ucast (digit_num c XOR mask 3)))"
  by (simp add: process_digit_key_def gpio_output_set_def OS_UART_LOG_def Let_def
      GPIO_PIN_LED_1_def seven_mask)

lemma gpio_calls_process_digit_key:
  "gpio_calls (process_digit_key c st) =
     gpio_calls st @ [(push_bit 12 (mask 3), push_bit 12 (ucast (digit_num c XOR mask 3)), 0, 0)]"
  by (simp add: process_digit_key_def gpio_output_set_def OS_UART_LOG_def Let_def
      GPIO_PIN_LED_1_def seven_mask)

lemma process_digit_key_frame:
  "gpio_enable (process_digit_key c st) = gpio_enable st"
  "tick_index (process_digit_key c st) = tick_index st"
  "client_connection_state (process_digit_key c st) = client_connection_state st"
  "open_tcp_connections (process_digit_key c st) = open_tcp_connections st"
  "prev_wifi_sessions_num (process_digit_key c st) = prev_wifi_sessions_num st"
  "uart_debug_logs (process_digit_key c st) = uart_debug_logs st"
  "uart (process_digit_key c st) = uart st @ [LOG_digit_key (digit_num c)]"
  by (simp_all add: process_digit_key_def gpio_output_set_def OS_UART_LOG_def Let_def)

lemma clear_mask_confined:
  "push_bit 12 (ucast (digit_num c XOR mask 3) :: u32) AND NOT (push_bit 12 (mask 3)) = 0"
  by (rule bit_word_eqI) (auto simp add: bit_simps dest: bit_digit_num)

lemma gpio_out_outside_command_pins:
  "gpio_out (process_digit_key c st) AND NOT command_pins = gpio_out st AND NOT command_pins"
  unfolding gpio_out_process_digit_key command_pins_mask
  by (rule bit_word_eqI) (auto simp add: bit_simps dest: bit_digit_num)

lemma gpio_out_status_pin:
  "bit (gpio_out (process_digit_key c st)) GPIO_PIN_LED_INT = bit (gpio_out st) GPIO_PIN_LED_INT"
  unfolding gpio_out_process_digit_key GPIO_PIN_LED_INT_def
  by (auto simp add: bit_simps)

lemma gpio_out_command_pin:
  "i < 3 \<Longrightarrow> bit (gpio_out (process_digit_key c st)) (GPIO_PIN_LED_1 + i) = bit (digit_num c) i"
  unfolding gpio_out_process_digit_key GPIO_PIN_LED_1_def
  by (auto simp add: bit_simps)

lemma command_leds_process_digit_key:
  "command_leds (process_digit_key c st) = digit_num c"
  unfolding command_leds_def gpio_out_process_digit_key GPIO_PIN_LED_1_def seven_mask
  by (rule bit_word_eqI) (auto simp add: bit_simps dest: bit_digit_num)

lemma digit_num_value:
  assumes "CHAR_DIGITS_START \<le> c" and "c \<le> CHAR_DIGITS_END"
  shows "unat (digit_num c) = unat c - unat CHAR_DIGITS_START"
proof -
  have u: "unat (c - CHAR_DIGITS_START) = unat c - 48"
    using assms(1) by (simp add: unat_sub CHAR_DIGITS_START_def)
  have "unat c \<le> 55"
    using assms(2) by (simp add: word_le_nat_alt CHAR_DIGITS_END_def)
  then have "unat (c - CHAR_DIGITS_START) < 2 ^ 3" using u by simp
  then have "c - CHAR_DIGITS_START < 2 ^ 3" by (simp add: word_less_nat_alt)
  then have "(c - CHAR_DIGITS_START) AND mask 3 = c - CHAR_DIGITS_START"
    by (rule less_mask_eq)
  then show ?thesis using u by (simp add: digit_num_def seven_mask CHAR_DIGITS_START_def)
qed

text \<open>
  Whether \<open>char\<close> is signed or unsigned on the target does not matter to the model: the
  8-bit \<open>digit_num\<close> is what the source computes on the promoted \<open>int\<close> and stores into a
  \<open>uint8\<close>, and the range test reads the same on signed characters.
\<close>

lemma word_of_int_mod32_u8: "(word_of_int (x mod 2 ^ 32) :: u8) = word_of_int x"
proof -
  have "(x mod 2 ^ 32) mod 2 ^ 8 = x mod 2 ^ 8"
    by (rule mod_mod_cancel) simp
  then show ?thesis
    by (simp add: word_of_int_eq_iff take_bit_eq_mod)
qed

lemma ucast_u32_u8_minus: "(ucast ((x :: u32) - y) :: u8) = ucast x - ucast y"
proof -
  have "(ucast (x - y) :: u8) = word_of_int (uint (x - y))" by (rule ucast_eq)
  also have "\<dots> = word_of_int ((uint x - uint y) mod 2 ^ 32)"
    by (simp add: uint_word_ariths)
  also have "\<dots> = word_of_int (uint x - uint y)" by (rule word_of_int_mod32_u8)
  also have "\<dots> = word_of_int (uint x) - word_of_int (uint y)" by (simp only: wi_hom_sub)
  finally show ?thesis by (simp only: ucast_eq)
qed

lemma ucast_u32_u8_and_mask: "(ucast ((x :: u32) AND mask 3) :: u8) = ucast x AND mask 3"
  by (rule bit_word_eqI) (auto simp add: bit_simps)

lemma ucast_ucast_u8: "(ucast (ucast (c :: u8) :: u32) :: u8) = c"
  by (rule bit_word_eqI) (auto simp add: bit_simps)

lemma ucast_scast_u8: "(ucast (scast (c :: u8) :: u32) :: u8) = c"
  by (rule bit_word_eqI) (auto simp add: bit_simps)

lemma digit_num_unsigned_char: "ucast (((ucast c :: u32) - 48) AND 7) = digit_num c"
  unfolding digit_num_def CHAR_DIGITS_START_def seven_mask ucast_u32_u8_and_mask
    ucast_u32_u8_minus ucast_ucast_u8
  by simp

lemma digit_num_signed_char: "ucast (((scast c :: u32) - 48) AND 7) = digit_num c"
  unfolding digit_num_def CHAR_DIGITS_START_def seven_mask ucast_u32_u8_and_mask
    ucast_u32_u8_minus ucast_scast_u8
  by simp

lemma digit_key_signed_char: "digit_key c \<longleftrightarrow> 48 \<le> sint c \<and> sint c \<le> 55"
proof (cases "uint c < 128")
  case True
  then have "sint c = uint c"
    by (simp add: sint_uint signed_take_bit_eq_if_positive bit_iff_odd take_bit_eq_mod)
  then show ?thesis
    by (simp add: digit_key_def CHAR_DIGITS_END_def CHAR_DIGITS_START_def word_le_def)
next
  case False
  have "uint c < 2 ^ 8" using uint_bounded [of c] by simp
  with False have "uint c div 2 ^ 7 = 1" by simp
  then have "bit (uint c) 7" by (simp only: bit_iff_odd) simp
  then have "sint c < 0" by (simp add: sint_uint)
  with False show ?thesis
    by (simp add: digit_key_def CHAR_DIGITS_END_def CHAR_DIGITS_START_def word_le_def)
qed

text \<open>
  Claim C10. \<open>process_digit_key\<close> has no failing branch, and for every character, also one
  outside \<open>'0'..'7'\<close>, the pattern \<open>(c - '0') & 0x07\<close> is at most 7; its single GPIO
  write leaves every output pin other than the three command pins (12, 13, 14) at its
  level, the status pin among them, leaves the output-enable register alone, and the masks
  it passes name command pins only.
\<close>

theorem process_digit_key_total_confined:
  "unat (digit_num c) \<le> 7
   \<and> gpio_out (process_digit_key c st) AND NOT command_pins = gpio_out st AND NOT command_pins
   \<and> bit (gpio_out (process_digit_key c st)) GPIO_PIN_LED_INT = bit (gpio_out st) GPIO_PIN_LED_INT
   \<and> gpio_enable (process_digit_key c st) = gpio_enable st
   \<and> gpio_calls (process_digit_key c st) =
        gpio_calls st @ [(command_pins, push_bit GPIO_PIN_LED_1 (ucast (digit_num c XOR 0x07)), 0, 0)]
   \<and> push_bit GPIO_PIN_LED_1 (ucast (digit_num c XOR 0x07)) AND NOT command_pins = 0"
  using digit_num_le [of c] gpio_out_outside_command_pins [of c st] gpio_out_status_pin [of c st]
    clear_mask_confined [of c]
  by (simp add: process_digit_key_frame gpio_calls_process_digit_key command_pins_mask
      GPIO_PIN_LED_1_def seven_mask)

text \<open>
  Claim C5. For every character \<open>c\<close> in \<open>'0'..'7'\<close> the decoder computes
  \<open>(c - '0') & 0b111\<close>, which is the digit's value, and makes it the level of the three
  command pins: pin \<open>12 + i\<close> is high exactly when bit \<open>i\<close> of the pattern is set,
  whatever the pins showed before.
\<close>

theorem process_digit_key_applies_pattern:
  assumes "CHAR_DIGITS_START \<le> c" and "c \<le> CHAR_DIGITS_END"
  shows "unat (digit_num c) = unat c - unat CHAR_DIGITS_START
   \<and> command_leds (process_digit_key c st) = (c - CHAR_DIGITS_START) AND 0x07
   \<and> (\<forall>i<3. bit (gpio_out (process_digit_key c st)) (GPIO_PIN_LED_1 + i)
               = bit ((c - CHAR_DIGITS_START) AND 0x07) i)
   \<and> command_leds (process_digit_key c st) = command_leds (process_digit_key c st')"
  using digit_num_value [OF assms]
  by (simp add: command_leds_process_digit_key gpio_out_command_pin digit_num_def)

theorem process_digit_key_applies_pattern_witness:
  "CHAR_DIGITS_START \<le> 0x35 \<and> 0x35 \<le> CHAR_DIGITS_END
   \<and> command_leds (process_digit_key 0x35 (initial_state 0x7004 0 False)) = 5
   \<and> unat (digit_num 0x35) = 5"
proof -
  have a: "CHAR_DIGITS_START \<le> 0x35" by (simp add: CHAR_DIGITS_START_def)
  have b: "(0x35 :: u8) \<le> CHAR_DIGITS_END" by (simp add: CHAR_DIGITS_END_def)
  show ?thesis
    using a b process_digit_key_applies_pattern [OF a b, of "initial_state 0x7004 0 False"]
    by (simp add: CHAR_DIGITS_START_def)
qed


section \<open>The receive callback: which byte is dispatched\<close>

lemma digit_key_nonzero: "digit_key c \<Longrightarrow> c \<noteq> 0"
  by (auto simp add: digit_key_def CHAR_DIGITS_START_def)

lemma receive_loop_stop: "last_char \<noteq> 0 \<Longrightarrow> receive_loop pusrdata idx last_char st = st"
  by (simp add: receive_loop.simps)

lemma receive_loop_zero: "receive_loop pusrdata 0 last_char st = st"
  by (simp add: receive_loop.simps)

lemma receive_loop_Suc:
  "receive_loop pusrdata (Suc i) 0 st =
     (if digit_key (pusrdata ! i) then process_digit_key (pusrdata ! i) st
      else receive_loop pusrdata i 0 st)"
  by (subst receive_loop.simps)
     (simp add: Let_def digit_key_def [symmetric] digit_key_nonzero receive_loop_stop)

lemma receive_loop_find:
  "idx \<le> length pusrdata \<Longrightarrow>
   receive_loop pusrdata idx 0 st =
     (case find digit_key (rev (take idx pusrdata)) of
        None \<Rightarrow> st
      | Some d \<Rightarrow> process_digit_key d st)"
proof (induction idx)
  case 0
  show ?case by (simp add: receive_loop_zero)
next
  case (Suc i)
  then have "i < length pusrdata" by simp
  then have "take (Suc i) pusrdata = take i pusrdata @ [pusrdata ! i]"
    by (rule take_Suc_conv_app_nth)
  with Suc show ?case by (simp add: receive_loop_Suc)
qed

lemma on_tcp_server_receive_find:
  "on_tcp_server_receive pusrdata st =
     (case first_digit_backward pusrdata of
        None \<Rightarrow> on_tcp_server_receive_logs pusrdata st
      | Some d \<Rightarrow> process_digit_key d (on_tcp_server_receive_logs pusrdata st))"
  by (cases "pusrdata = []")
     (simp_all add: on_tcp_server_receive_def first_digit_backward_def receive_loop_find Let_def)

lemma find_rev_split:
  "digit_key d \<Longrightarrow> \<forall>c\<in>set suf. \<not> digit_key c \<Longrightarrow>
   find digit_key (rev (pre @ d # suf)) = Some d"
  by (induction suf rule: rev_induct) simp_all

lemma find_None_no_digit: "\<forall>c\<in>set xs. \<not> digit_key c \<Longrightarrow> find digit_key (rev xs) = None"
  by (simp add: find_None_iff)

lemma receive_logs_frame:
  "gpio_out (on_tcp_server_receive_logs p st) = gpio_out st"
  "gpio_enable (on_tcp_server_receive_logs p st) = gpio_enable st"
  "gpio_calls (on_tcp_server_receive_logs p st) = gpio_calls st"
  "tick_index (on_tcp_server_receive_logs p st) = tick_index st"
  "client_connection_state (on_tcp_server_receive_logs p st) = client_connection_state st"
  "open_tcp_connections (on_tcp_server_receive_logs p st) = open_tcp_connections st"
  "prev_wifi_sessions_num (on_tcp_server_receive_logs p st) = prev_wifi_sessions_num st"
  "uart_debug_logs (on_tcp_server_receive_logs p st) = uart_debug_logs st"
  by (simp_all add: on_tcp_server_receive_logs_def OS_UART_LOG_def Let_def)


text \<open>
  Claim C1, as stated, fails: the scan does not stop at a byte outside \<open>'0'..'7'\<close>, it
  steps over it. On the buffer \<open>"57x"\<close> the byte \<open>x\<close> is skipped and \<open>'7'\<close>, which lies
  earlier in the buffer, is dispatched: one GPIO write, pattern 7.
\<close>

theorem receive_57x_dispatches_7:
  "\<not> digit_key 0x78
   \<and> gpio_calls (on_tcp_server_receive [0x35, 0x37, 0x78] (initial_state 0 0 False))
        = [(0x7000, 0, 0, 0)]
   \<and> uart (on_tcp_server_receive [0x35, 0x37, 0x78] (initial_state 0 0 False))
        = [LOG_data_received 3, LOG_digit_key 7]
   \<and> command_leds (on_tcp_server_receive [0x35, 0x37, 0x78] (initial_state 0 0 False)) = 7"
  by (simp add: on_tcp_server_receive_find first_digit_backward_def digit_key_def
      CHAR_DIGITS_START_def CHAR_DIGITS_END_def on_tcp_server_receive_logs_def
      process_digit_key_def gpio_output_set_def OS_UART_LOG_def initial_state_def
      digit_num_def command_leds_def GPIO_PIN_LED_1_def Let_def)

text \<open>
  Claim C1, amended. The backward scan steps over every byte that is not in \<open>'0'..'7'\<close>
  and stops at the first byte, counting from the last byte toward the start, that is in
  \<open>'0'..'7'\<close>: that byte alone is dispatched to the digit decoder, and no byte earlier in
  the buffer is. The outcome is one GPIO write fixed by that byte, whatever precedes it.
\<close>

theorem receive_scan_stops_at_first_digit:
  assumes "digit_key d" and "\<forall>c\<in>set suf. \<not> digit_key c"
  shows "on_tcp_server_receive (pre @ d # suf) st
           = process_digit_key d (on_tcp_server_receive_logs (pre @ d # suf) st)
         \<and> gpio_calls (on_tcp_server_receive (pre @ d # suf) st)
           = gpio_calls st
             @ [(command_pins, push_bit GPIO_PIN_LED_1 (ucast (digit_num d XOR 0x07)), 0, 0)]"
  using find_rev_split [OF assms, of pre]
  by (simp add: on_tcp_server_receive_find first_digit_backward_def
      gpio_calls_process_digit_key receive_logs_frame command_pins_mask GPIO_PIN_LED_1_def
      seven_mask)

theorem receive_scan_stops_at_first_digit_witness:
  "digit_key 0x37 \<and> \<not> digit_key 0x78
   \<and> on_tcp_server_receive ([0x35] @ 0x37 # [0x78]) (initial_state 0 0 False)
        = process_digit_key 0x37
            (on_tcp_server_receive_logs ([0x35] @ 0x37 # [0x78]) (initial_state 0 0 False))"
proof -
  have a: "digit_key 0x37"
    by (simp add: digit_key_def CHAR_DIGITS_START_def CHAR_DIGITS_END_def)
  have b: "\<forall>c\<in>set [0x78]. \<not> digit_key c"
    by (simp add: digit_key_def CHAR_DIGITS_START_def CHAR_DIGITS_END_def)
  show ?thesis
    using a b receive_scan_stops_at_first_digit [OF a b, of "[0x35]" "initial_state 0 0 False"]
    by (simp add: digit_key_def CHAR_DIGITS_START_def CHAR_DIGITS_END_def)
qed

text \<open>
  Claim C2. \<open>on_tcp_server_receive\<close> dispatches at most one character to
  \<open>process_digit_key\<close>, namely the first byte in \<open>'0'..'7'\<close> found scanning backward from
  the last byte, and nothing after that match; so at most one GPIO write is added.
  On \<open>"abc5"\<close> only \<open>'5'\<close> is processed, on \<open>"123"\<close> only \<open>'3'\<close>.
\<close>

theorem receive_dispatches_first_digit_backward:
  "on_tcp_server_receive pusrdata st
     = (case first_digit_backward pusrdata of
          None \<Rightarrow> on_tcp_server_receive_logs pusrdata st
        | Some d \<Rightarrow> process_digit_key d (on_tcp_server_receive_logs pusrdata st))
   \<and> length (gpio_calls (on_tcp_server_receive pusrdata st)) \<le> Suc (length (gpio_calls st))"
  by (simp add: on_tcp_server_receive_find gpio_calls_process_digit_key receive_logs_frame
      split: option.split)

theorem receive_dispatches_first_digit_backward_witness:
  "on_tcp_server_receive [0x61, 0x62, 0x63, 0x35] (initial_state 0 0 False)
     = process_digit_key 0x35
         (on_tcp_server_receive_logs [0x61, 0x62, 0x63, 0x35] (initial_state 0 0 False))
   \<and> on_tcp_server_receive [0x31, 0x32, 0x33] (initial_state 0 0 False)
     = process_digit_key 0x33
         (on_tcp_server_receive_logs [0x31, 0x32, 0x33] (initial_state 0 0 False))"
  using receive_dispatches_first_digit_backward [of "[0x61, 0x62, 0x63, 0x35]" "initial_state 0 0 False"]
    receive_dispatches_first_digit_backward [of "[0x31, 0x32, 0x33]" "initial_state 0 0 False"]
  by (simp add: first_digit_backward_def digit_key_def CHAR_DIGITS_START_def CHAR_DIGITS_END_def)

text \<open>
  Claim C9. A buffer without a byte in \<open>'0'..'7'\<close> (the empty buffer, buffers with NUL
  bytes) causes no GPIO write, so the registers and the command-LED pattern stay as they
  were; and no buffer whatsoever changes \<open>open_tcp_connections\<close>,
  \<open>client_connection_state\<close> or \<open>tick_index\<close>.
\<close>

theorem receive_frame:
  "((\<forall>c\<in>set pusrdata. \<not> digit_key c) \<longrightarrow>
      gpio_calls (on_tcp_server_receive pusrdata st) = gpio_calls st
      \<and> gpio_out (on_tcp_server_receive pusrdata st) = gpio_out st
      \<and> gpio_enable (on_tcp_server_receive pusrdata st) = gpio_enable st
      \<and> command_leds (on_tcp_server_receive pusrdata st) = command_leds st)
   \<and> open_tcp_connections (on_tcp_server_receive pusrdata st) = open_tcp_connections st
   \<and> client_connection_state (on_tcp_server_receive pusrdata st) = client_connection_state st
   \<and> tick_index (on_tcp_server_receive pusrdata st) = tick_index st"
  by (simp add: on_tcp_server_receive_find first_digit_backward_def find_None_no_digit
      receive_logs_frame process_digit_key_frame command_leds_def split: option.split)

theorem receive_frame_witness:
  "\<not> digit_key 0x68 \<and> \<not> digit_key 0 \<and> \<not> digit_key 0x39
   \<and> gpio_calls (on_tcp_server_receive [0x68, 0, 0x39] (initial_state 0x5000 0 True)) = []
   \<and> gpio_out (on_tcp_server_receive [0x68, 0, 0x39] (initial_state 0x5000 0 True)) = 0x5000
   \<and> gpio_calls (on_tcp_server_receive [] (initial_state 0x5000 0 True)) = []
   \<and> tick_index (on_tcp_server_receive [0x35] (initial_state 0x5000 0 True)) = 0"
proof -
  have a: "\<forall>c\<in>set [0x68, 0, 0x39]. \<not> digit_key c"
    by (simp add: digit_key_def CHAR_DIGITS_START_def CHAR_DIGITS_END_def)
  show ?thesis
    using a receive_frame [of "[0x68, 0, 0x39]" "initial_state 0x5000 0 True"]
      receive_frame [of "[]" "initial_state 0x5000 0 True"]
      receive_frame [of "[0x35]" "initial_state 0x5000 0 True"]
    by (simp add: initial_state_def digit_key_def CHAR_DIGITS_START_def CHAR_DIGITS_END_def)
qed


section \<open>The timer callback: one tick\<close>

lemma on_timer_advance_frame:
  "client_connection_state (on_timer_advance st) = client_connection_state st"
  "open_tcp_connections (on_timer_advance st) = open_tcp_connections st"
  "prev_wifi_sessions_num (on_timer_advance st) = prev_wifi_sessions_num st"
  "gpio_out (on_timer_advance st) = gpio_out st"
  "gpio_calls (on_timer_advance st) = gpio_calls st"
  "uart (on_timer_advance st) = uart st"
  by (simp_all add: on_timer_advance_def Let_def)

lemma on_timer_status_led_frame:
  "client_connection_state (on_timer_status_led st) = client_connection_state st"
  "open_tcp_connections (on_timer_status_led st) = open_tcp_connections st"
  "prev_wifi_sessions_num (on_timer_status_led st) = prev_wifi_sessions_num st"
  "tick_index (on_timer_status_led st) = tick_index st"
  "uart (on_timer_status_led st) = uart st"
  by (simp_all add: on_timer_status_led_def gpio_output_set_def)

lemma on_timer_state_update_frame:
  "tick_index (on_timer_state_update s st) = tick_index st"
  "gpio_out (on_timer_state_update s st) = gpio_out st"
  "gpio_calls (on_timer_state_update s st) = gpio_calls st"
  by (simp_all add: on_timer_state_update_def OS_UART_LOG_def Let_def)

lemma state_update_skip:
  "tick_index st mod TIMER_PERIOD_STATE_UPDATE \<noteq> 0 \<Longrightarrow> on_timer_state_update s st = st"
  by (simp add: on_timer_state_update_def)

lemma state_update_connection_state:
  "tick_index st mod TIMER_PERIOD_STATE_UPDATE = 0 \<Longrightarrow>
   client_connection_state (on_timer_state_update s st) =
     (if s \<noteq> 0 then (if open_tcp_connections st \<noteq> 0 then STATE_CLIENT_SOCKET_CONNECTED
                        else STATE_CLIENT_WIFI_CONNECTED)
      else STATE_DISCONNECTED)"
  by (simp add: on_timer_state_update_def OS_UART_LOG_def Let_def)

lemma state_update_open_tcp_connections:
  "tick_index st mod TIMER_PERIOD_STATE_UPDATE = 0 \<Longrightarrow>
   open_tcp_connections (on_timer_state_update s st) =
     (if s \<noteq> 0 then open_tcp_connections st else 0)"
  by (simp add: on_timer_state_update_def OS_UART_LOG_def Let_def)

lemma state_update_uart:
  "tick_index st mod TIMER_PERIOD_STATE_UPDATE = 0 \<Longrightarrow>
   uart (on_timer_state_update s st) =
     uart st @ (if s \<noteq> prev_wifi_sessions_num st then [LOG_wifi_sessions s] else [])"
  by (simp add: on_timer_state_update_def OS_UART_LOG_def Let_def)

lemma state_update_prev:
  "tick_index st mod TIMER_PERIOD_STATE_UPDATE = 0 \<Longrightarrow>
   prev_wifi_sessions_num (on_timer_state_update s st) = s"
  by (simp add: on_timer_state_update_def OS_UART_LOG_def Let_def)

lemma on_timer_connection_state:
  "client_connection_state (on_timer s st) = client_connection_state (on_timer_state_update s st)"
  by (simp add: on_timer_def on_timer_advance_frame on_timer_status_led_frame)

lemma on_timer_open_tcp_connections:
  "open_tcp_connections (on_timer s st) = open_tcp_connections (on_timer_state_update s st)"
  by (simp add: on_timer_def on_timer_advance_frame on_timer_status_led_frame)

lemma on_timer_uart: "uart (on_timer s st) = uart (on_timer_state_update s st)"
  by (simp add: on_timer_def on_timer_advance_frame on_timer_status_led_frame)

lemma on_timer_prev:
  "prev_wifi_sessions_num (on_timer s st) = prev_wifi_sessions_num (on_timer_state_update s st)"
  by (simp add: on_timer_def on_timer_advance_frame on_timer_status_led_frame)

lemma sint_pos_nonzero: "0 < sint (x :: s8) \<Longrightarrow> x \<noteq> 0"
  by auto

lemma status_pin_mask: "(push_bit GPIO_PIN_LED_INT 1 :: u32) = 4"
  by (simp add: GPIO_PIN_LED_INT_def)

lemma status_pin_test: "((w :: u32) AND 4 \<noteq> 0) = bit w 2"
  using bit_iff_and_push_bit_not_eq_0 [of w 2] by simp

lemma status_pin_lowered: "\<not> bit (((w :: u32) OR 0) AND NOT 4) 2"
  by (simp add: bit_simps)

lemma status_pin_raised: "bit (((w :: u32) OR 4) AND NOT 0) 2"
  by (simp add: bit_simps)

lemma status_led_on_advance: "status_led_on (on_timer_advance st) = status_led_on st"
  by (simp add: status_led_on_def on_timer_advance_frame)

lemma status_led_on_state_update: "status_led_on (on_timer_state_update s st) = status_led_on st"
  by (simp add: status_led_on_def on_timer_state_update_frame)

lemma status_led_block:
  "tick_index st mod TIMER_PERIOD_WIFI_STATUS_LED = 0 \<Longrightarrow>
   status_led_on (on_timer_status_led st) =
     (if client_connection_state st = STATE_CLIENT_SOCKET_CONNECTED then True
      else if client_connection_state st = STATE_CLIENT_WIFI_CONNECTED then \<not> status_led_on st
      else False)"
  unfolding on_timer_status_led_def status_led_on_def gpio_output_set_def status_pin_mask
    status_pin_test
  using status_pin_lowered [of "gpio_out st"] status_pin_raised [of "gpio_out st"]
  by (simp add: GPIO_PIN_LED_INT_def)

lemmas timer_eval_defs =
  on_timer_def on_timer_state_update_def on_timer_status_led_def on_timer_advance_def
  on_tcp_server_accepted_def on_tcp_server_disconnect_def OS_UART_LOG_def gpio_output_set_def
  initial_state_def TIMER_PERIOD_STATE_UPDATE_def TIMER_PERIOD_WIFI_STATUS_LED_def
  TIMER_PERIOD_RESET_def STATE_DISCONNECTED_def STATE_CLIENT_WIFI_CONNECTED_def
  STATE_CLIENT_SOCKET_CONNECTED_def GPIO_PIN_LED_INT_def status_led_on_def Let_def

text \<open>
  Claim C3. At a state-update tick (\<open>tick_index\<close> a multiple of 50), with \<open>s\<close> the
  station count just read and \<open>o\<close> the open-connection count: if \<open>s = 0\<close> the state
  becomes Disconnected and \<open>o\<close> is reset to 0; if \<open>s > 0\<close> and \<open>o > 0\<close> it becomes
  SocketConnected; if \<open>s > 0\<close> and \<open>o = 0\<close> it becomes WifiConnected.
\<close>

theorem state_update_tick_transition:
  assumes "tick_index st mod TIMER_PERIOD_STATE_UPDATE = 0"
  shows "(s = 0 \<longrightarrow> client_connection_state (on_timer s st) = STATE_DISCONNECTED
                    \<and> open_tcp_connections (on_timer s st) = 0)
       \<and> (0 < s \<and> 0 < sint (open_tcp_connections st) \<longrightarrow>
            client_connection_state (on_timer s st) = STATE_CLIENT_SOCKET_CONNECTED)
       \<and> (0 < s \<and> open_tcp_connections st = 0 \<longrightarrow>
            client_connection_state (on_timer s st) = STATE_CLIENT_WIFI_CONNECTED)"
  using assms
  by (auto simp add: on_timer_connection_state on_timer_open_tcp_connections
      state_update_connection_state state_update_open_tcp_connections)

theorem state_update_tick_transition_witness:
  "tick_index (initial_state 0 0 False) mod TIMER_PERIOD_STATE_UPDATE = 0
   \<and> client_connection_state (on_timer 0 (initial_state 0 0 False)) = STATE_DISCONNECTED
   \<and> open_tcp_connections (on_timer 0 (initial_state 0 0 False)) = 0
   \<and> client_connection_state (on_timer 1 (on_tcp_server_accepted (initial_state 0 0 False)))
        = STATE_CLIENT_SOCKET_CONNECTED
   \<and> client_connection_state (on_timer 1 (initial_state 0 0 False))
        = STATE_CLIENT_WIFI_CONNECTED"
proof -
  have a: "tick_index (initial_state 0 0 False) mod TIMER_PERIOD_STATE_UPDATE = 0"
    by (simp add: initial_state_def)
  have b: "tick_index (on_tcp_server_accepted (initial_state 0 0 False))
             mod TIMER_PERIOD_STATE_UPDATE = 0"
    by (simp add: initial_state_def on_tcp_server_accepted_def OS_UART_LOG_def Let_def)
  have c: "0 < sint (open_tcp_connections (on_tcp_server_accepted (initial_state 0 0 False)))"
    by (simp add: initial_state_def on_tcp_server_accepted_def OS_UART_LOG_def Let_def)
  have d: "open_tcp_connections (initial_state 0 0 False) = 0"
    by (simp add: initial_state_def)
  show ?thesis
    using a c d state_update_tick_transition [OF a, of 0]
      state_update_tick_transition [OF b, of 1] state_update_tick_transition [OF a, of 1]
    by simp
qed

text \<open>
  Claim C8. On a state-update tick the session-count log event is emitted exactly when the
  station count just read differs from the previously observed one, and nothing else is
  logged; afterwards the remembered count is the one just read.
\<close>

theorem session_log_edge_triggered:
  assumes "tick_index st mod TIMER_PERIOD_STATE_UPDATE = 0"
  shows "uart (on_timer s st) =
           uart st @ (if s \<noteq> prev_wifi_sessions_num st then [LOG_wifi_sessions s] else [])
         \<and> prev_wifi_sessions_num (on_timer s st) = s"
  using assms by (simp add: on_timer_uart on_timer_prev state_update_uart state_update_prev)

theorem session_log_edge_triggered_witness:
  "tick_index (initial_state 0 0 False) mod TIMER_PERIOD_STATE_UPDATE = 0
   \<and> uart (on_timer 2 (initial_state 0 0 False)) = [LOG_wifi_sessions 2]
   \<and> prev_wifi_sessions_num (on_timer 2 (initial_state 0 0 False)) = 2
   \<and> uart (on_timer 0 (initial_state 0 0 False)) = []"
proof -
  have a: "tick_index (initial_state 0 0 False) mod TIMER_PERIOD_STATE_UPDATE = 0"
    by (simp add: initial_state_def)
  show ?thesis
    using a session_log_edge_triggered [OF a, of 2] session_log_edge_triggered [OF a, of 0]
    by (simp add: initial_state_def)
qed

text \<open>
  Claim C6. At a status-LED tick (\<open>tick_index\<close> a multiple of 5) the connection state the
  LED block reads is the one the tick leaves behind: if it is SocketConnected the status
  LED is on after the tick, if it is WifiConnected the LED is the inverse of what the
  output register showed before, if it is Disconnected the LED is off.
\<close>

theorem status_led_tick:
  assumes "tick_index st mod TIMER_PERIOD_WIFI_STATUS_LED = 0"
  shows "client_connection_state (on_timer s st)
           = client_connection_state (on_timer_state_update s st)
       \<and> (client_connection_state (on_timer s st) = STATE_CLIENT_SOCKET_CONNECTED \<longrightarrow>
            status_led_on (on_timer s st))
       \<and> (client_connection_state (on_timer s st) = STATE_CLIENT_WIFI_CONNECTED \<longrightarrow>
            status_led_on (on_timer s st) = (\<not> status_led_on st))
       \<and> (client_connection_state (on_timer s st) = STATE_DISCONNECTED \<longrightarrow>
            \<not> status_led_on (on_timer s st))"
proof -
  let ?u = "on_timer_state_update s st"
  have g: "tick_index ?u mod TIMER_PERIOD_WIFI_STATUS_LED = 0"
    using assms by (simp add: on_timer_state_update_frame)
  have "status_led_on (on_timer s st) = status_led_on (on_timer_status_led ?u)"
    by (simp add: on_timer_def status_led_on_advance)
  then show ?thesis
    using status_led_block [OF g]
    by (auto simp add: on_timer_connection_state status_led_on_state_update
        STATE_DISCONNECTED_def STATE_CLIENT_WIFI_CONNECTED_def STATE_CLIENT_SOCKET_CONNECTED_def)
qed


theorem status_led_tick_witness:
  "tick_index (initial_state 0 0 False) mod TIMER_PERIOD_WIFI_STATUS_LED = 0
   \<and> status_led_on (on_timer 1 (on_tcp_server_accepted (initial_state 0 0 False)))
   \<and> status_led_on (on_timer 1 (initial_state 0 0 False))
        = (\<not> status_led_on (initial_state 0 0 False))
   \<and> \<not> status_led_on (on_timer 0 (initial_state 0 0 False))"
proof -
  have a: "tick_index (initial_state 0 0 False) mod TIMER_PERIOD_WIFI_STATUS_LED = 0"
    by (simp add: initial_state_def)
  have b: "tick_index (on_tcp_server_accepted (initial_state 0 0 False))
             mod TIMER_PERIOD_WIFI_STATUS_LED = 0"
    by (simp add: initial_state_def on_tcp_server_accepted_def OS_UART_LOG_def Let_def)
  have c: "client_connection_state (on_timer 1 (on_tcp_server_accepted (initial_state 0 0 False)))
             = STATE_CLIENT_SOCKET_CONNECTED"
    by (simp add: timer_eval_defs)
  have d: "client_connection_state (on_timer 1 (initial_state 0 0 False))
             = STATE_CLIENT_WIFI_CONNECTED"
    by (simp add: timer_eval_defs)
  have e: "client_connection_state (on_timer 0 (initial_state 0 0 False)) = STATE_DISCONNECTED"
    by (simp add: timer_eval_defs)
  show ?thesis
    using a c d e status_led_tick [OF b, of 1] status_led_tick [OF a, of 1]
      status_led_tick [OF a, of 0]
    by simp
qed


section \<open>The timer callback: cadence over many ticks\<close>

lemma on_timer_tick_index:
  "tick_index (on_timer s st) =
     (if TIMER_PERIOD_RESET \<le> tick_index st + 1 then 0 else tick_index st + 1)"
  by (simp add: on_timer_def on_timer_advance_def on_timer_status_led_frame
      on_timer_state_update_frame Let_def)

lemma unat_tick_succ:
  assumes "unat (t :: u32) < 1000000"
  shows "unat (t + 1) = unat t + 1"
proof -
  have "unat t + unat (1 :: u32) < 2 ^ LENGTH(32)" using assms by simp
  then have "unat (t + 1) = unat t + unat (1 :: u32)" by (simp only: unat_add_lem)
  then show ?thesis by simp
qed

lemma unat_on_timer_tick_index:
  assumes "unat (tick_index st) < 1000000"
  shows "unat (tick_index (on_timer s st)) = (unat (tick_index st) + 1) mod 1000000"
proof -
  have "unat (tick_index st + 1) = unat (tick_index st) + 1"
    using assms by (rule unat_tick_succ)
  moreover have "unat (tick_index st) = 999999 \<or> unat (tick_index st) < 999999"
    using assms by arith
  ultimately show ?thesis
    by (auto simp add: on_timer_tick_index TIMER_PERIOD_RESET_def word_le_nat_alt)
qed

lemma dispatch_tick_index_other:
  "\<not> is_timer ev \<Longrightarrow> tick_index (dispatch st ev) = tick_index st"
  by (cases ev)
     (simp_all add: on_tcp_server_accepted_def on_tcp_server_disconnect_def
       on_tcp_server_reconnect_def OS_UART_LOG_def Let_def
       on_tcp_server_receive_find receive_logs_frame process_digit_key_frame
       split: option.split)

lemma state_update_due_unat:
  "(tick_index st mod TIMER_PERIOD_STATE_UPDATE = 0) = (unat (tick_index st) mod 50 = 0)"
  by (simp add: TIMER_PERIOD_STATE_UPDATE_def unat_eq_0 [symmetric] unat_mod del: unat_eq_0)

lemma status_led_due_unat:
  "(tick_index st mod TIMER_PERIOD_WIFI_STATUS_LED = 0) = (unat (tick_index st) mod 5 = 0)"
  by (simp add: TIMER_PERIOD_WIFI_STATUS_LED_def unat_eq_0 [symmetric] unat_mod del: unat_eq_0)

lemma wrap_mod_50: "Suc T mod 1000000 mod 50 = Suc (T mod 50) mod 50"
proof -
  have "Suc T mod 1000000 mod 50 = Suc T mod 50"
    by (rule mod_mod_cancel) simp
  then show ?thesis by (simp add: mod_Suc_eq)
qed

lemma wrap_mod_5: "Suc T mod 1000000 mod 5 = Suc (T mod 5) mod 5"
proof -
  have "Suc T mod 1000000 mod 5 = Suc T mod 5"
    by (rule mod_mod_cancel) simp
  then show ?thesis by (simp add: mod_Suc_eq)
qed

lemma count_step_50:
  assumes "(r :: nat) < 50"
  shows "(if r = 0 then 1 else 0)
           + (((r + 1) mod 50 + n + 49) div 50 - ((r + 1) mod 50 + 49) div 50)
         = (r + Suc n + 49) div 50 - (r + 49) div 50"
proof -
  consider "r = 0" | "r = 49" | "0 < r" and "r < 49"
    using assms by arith
  then show ?thesis
  proof cases
    case 1
    then show ?thesis by simp
  next
    case 2
    have "(49 + Suc n + 49) div 50 = Suc ((n + 49) div 50)"
      using div_add_self2 [of 50 "n + 49"] by (simp add: add.commute add.left_commute)
    with 2 show ?thesis by simp
  next
    case 3
    have a: "(r + 1) mod 50 = r + 1" using 3 by simp
    have b: "(r + 49) div 50 = 1" by (rule div_nat_eqI) (use 3 in simp_all)
    have c: "(r + 1 + 49) div 50 = 1" by (rule div_nat_eqI) (use 3 in simp_all)
    have d: "r + 1 + n + 49 = r + Suc n + 49" by simp
    show ?thesis unfolding a c d b using 3 by simp
  qed
qed

lemma count_step_5:
  assumes "(r :: nat) < 5"
  shows "(if r = 0 then 1 else 0)
           + (((r + 1) mod 5 + n + 4) div 5 - ((r + 1) mod 5 + 4) div 5)
         = (r + Suc n + 4) div 5 - (r + 4) div 5"
proof -
  consider "r = 0" | "r = 4" | "0 < r" and "r < 4"
    using assms by arith
  then show ?thesis
  proof cases
    case 1
    then show ?thesis by simp
  next
    case 2
    have "(4 + Suc n + 4) div 5 = Suc ((n + 4) div 5)"
      using div_add_self2 [of 5 "n + 4"] by (simp add: add.commute add.left_commute)
    with 2 show ?thesis by simp
  next
    case 3
    have a: "(r + 1) mod 5 = r + 1" using 3 by simp
    have b: "(r + 4) div 5 = 1" by (rule div_nat_eqI) (use 3 in simp_all)
    have c: "(r + 1 + 4) div 5 = 1" by (rule div_nat_eqI) (use 3 in simp_all)
    have d: "r + 1 + n + 4 = r + Suc n + 4" by simp
    show ?thesis unfolding a c d b using 3 by simp
  qed
qed

lemma tick_index_bound_dispatch:
  assumes "unat (tick_index st) < 1000000"
  shows "unat (tick_index (dispatch st ev)) < 1000000"
proof (cases "is_timer ev")
  case True
  then obtain s where "ev = Timer s" by (cases ev) simp_all
  then show ?thesis using unat_on_timer_tick_index [OF assms, of s] by simp
next
  case False
  then show ?thesis using assms by (simp add: dispatch_tick_index_other)
qed

lemma state_update_entered_iff:
  "state_update_entered s st = (tick_index st mod TIMER_PERIOD_STATE_UPDATE = 0)"
proof (cases "tick_index st mod TIMER_PERIOD_STATE_UPDATE = 0")
  case True
  have "on_timer s st \<noteq> on_timer (s + 1) st"
  proof
    assume "on_timer s st = on_timer (s + 1) st"
    then have "prev_wifi_sessions_num (on_timer s st)
                 = prev_wifi_sessions_num (on_timer (s + 1) st)"
      by simp
    then have "s = s + 1"
      by (simp only: on_timer_prev state_update_prev [OF True])
    then show False by simp
  qed
  with True show ?thesis by (simp add: state_update_entered_def)
next
  case False
  then have "on_timer s st = on_timer (s + 1) st"
    by (simp add: on_timer_def state_update_skip)
  with False show ?thesis by (simp add: state_update_entered_def)
qed

lemma gpio_calls_status_led:
  "gpio_calls (on_timer_status_led st) =
     gpio_calls st
       @ (if tick_index st mod TIMER_PERIOD_WIFI_STATUS_LED = 0
          then [(if client_connection_state st = STATE_CLIENT_SOCKET_CONNECTED
                   \<or> (client_connection_state st = STATE_CLIENT_WIFI_CONNECTED
                       \<and> gpio_out st AND push_bit GPIO_PIN_LED_INT 1 \<noteq> 0)
                 then (0, push_bit GPIO_PIN_LED_INT 1, 0, 0)
                 else (push_bit GPIO_PIN_LED_INT 1, 0, 0, 0))]
          else [])"
  by (simp add: on_timer_status_led_def gpio_output_set_def)

lemma status_led_writes_eq:
  "status_led_writes s st =
     (if tick_index st mod TIMER_PERIOD_WIFI_STATUS_LED = 0 then 1 else 0)"
proof -
  have "gpio_calls (on_timer s st)
          = gpio_calls (on_timer_status_led (on_timer_state_update s st))"
    by (simp add: on_timer_def on_timer_advance_frame)
  then show ?thesis
    by (simp add: status_led_writes_def gpio_calls_status_led on_timer_state_update_frame)
qed

lemma state_update_fires_closed_form:
  "unat (tick_index st) < 1000000 \<Longrightarrow>
   state_update_fires st evs =
     (unat (tick_index st) mod 50 + timer_ticks evs + 49) div 50
       - (unat (tick_index st) mod 50 + 49) div 50"
proof (induction evs arbitrary: st)
  case Nil
  show ?case by (simp add: timer_ticks_def)
next
  case (Cons ev evs)
  have b: "unat (tick_index (dispatch st ev)) < 1000000"
    using Cons.prems by (rule tick_index_bound_dispatch)
  note ih = Cons.IH [OF b]
  show ?case
  proof (cases "is_timer ev")
    case True
    then obtain s where ev: "ev = Timer s" by (cases ev) simp_all
    have r: "unat (tick_index st) mod 50 < 50" by simp
    have t: "unat (tick_index (dispatch st ev)) mod 50 = (unat (tick_index st) mod 50 + 1) mod 50"
      using unat_on_timer_tick_index [OF Cons.prems, of s] by (simp add: ev wrap_mod_50)
    have "state_update_fires st (ev # evs) =
            (if unat (tick_index st) mod 50 = 0 then 1 else 0)
              + state_update_fires (dispatch st ev) evs"
      by (simp add: ev state_update_entered_iff state_update_due_unat)
    also have "\<dots> = (unat (tick_index st) mod 50 + Suc (timer_ticks evs) + 49) div 50
                       - (unat (tick_index st) mod 50 + 49) div 50"
      unfolding ih t by (rule count_step_50 [OF r])
    finally show ?thesis by (simp add: ev timer_ticks_def)
  next
    case False
    then have "state_update_fires st (ev # evs) = state_update_fires (dispatch st ev) evs"
      by (cases ev) simp_all
    with False ih show ?thesis by (simp add: dispatch_tick_index_other timer_ticks_def)
  qed
qed

lemma status_led_fires_closed_form:
  "unat (tick_index st) < 1000000 \<Longrightarrow>
   status_led_fires st evs =
     (unat (tick_index st) mod 5 + timer_ticks evs + 4) div 5
       - (unat (tick_index st) mod 5 + 4) div 5"
proof (induction evs arbitrary: st)
  case Nil
  show ?case by (simp add: timer_ticks_def)
next
  case (Cons ev evs)
  have b: "unat (tick_index (dispatch st ev)) < 1000000"
    using Cons.prems by (rule tick_index_bound_dispatch)
  note ih = Cons.IH [OF b]
  show ?case
  proof (cases "is_timer ev")
    case True
    then obtain s where ev: "ev = Timer s" by (cases ev) simp_all
    have r: "unat (tick_index st) mod 5 < 5" by simp
    have t: "unat (tick_index (dispatch st ev)) mod 5 = (unat (tick_index st) mod 5 + 1) mod 5"
      using unat_on_timer_tick_index [OF Cons.prems, of s] by (simp add: ev wrap_mod_5)
    have "status_led_fires st (ev # evs) =
            (if unat (tick_index st) mod 5 = 0 then 1 else 0)
              + status_led_fires (dispatch st ev) evs"
      by (simp add: ev status_led_writes_eq status_led_due_unat)
    also have "\<dots> = (unat (tick_index st) mod 5 + Suc (timer_ticks evs) + 4) div 5
                       - (unat (tick_index st) mod 5 + 4) div 5"
      unfolding ih t by (rule count_step_5 [OF r])
    finally show ?thesis by (simp add: ev timer_ticks_def)
  next
    case False
    then have "status_led_fires st (ev # evs) = status_led_fires (dispatch st ev) evs"
      by (cases ev) simp_all
    with False ih show ?thesis by (simp add: dispatch_tick_index_other timer_ticks_def)
  qed
qed

lemma run_Nil: "run st [] = st"
  by (simp add: run_def)

lemma run_snoc: "run st (evs @ [ev]) = dispatch (run st evs) ev"
  by (simp add: run_def)

lemma run_append: "run st (xs @ ys) = run (run st xs) ys"
  by (simp add: run_def)

lemma reachable_tick_index_bound:
  "unat (tick_index (run (initial_state out en dbg) evs)) < 1000000"
proof (induction evs rule: rev_induct)
  case Nil
  show ?case by (simp add: run_Nil initial_state_def)
next
  case (snoc ev evs)
  then show ?case by (simp add: run_snoc tick_index_bound_dispatch)
qed

lemma window_50: "((r :: nat) + 1000 + 49) div 50 - (r + 49) div 50 = 20"
proof -
  have "(r + 1000 + 49) div 50 = (r + 49 + 20 * 50) div 50" by simp
  also have "\<dots> = 20 + (r + 49) div 50" by (simp only: div_mult_self3)
  finally show ?thesis by simp
qed

lemma window_5: "((r :: nat) + 1000 + 4) div 5 - (r + 4) div 5 = 200"
proof -
  have "(r + 1000 + 4) div 5 = (r + 4 + 200 * 5) div 5" by simp
  also have "\<dots> = 200 + (r + 4) div 5" by (simp only: div_mult_self3)
  finally show ?thesis by simp
qed

text \<open>
  Claim C7. From any counter value below 1,000,000 (every reachable one, see
  \<open>reachable_tick_index_bound\<close>) a tick advances \<open>tick_index\<close> by exactly 1 and wraps
  it to 0 on reaching 1,000,000; and while any events holding 1000 timer ticks are
  dispatched, also across the wrap, exactly 20 of those ticks run the state-update block
  (their outcome depends on the station count read) and the status-LED block makes exactly
  200 GPIO writes, one per entry.
\<close>

theorem tick_cadence:
  assumes "tick_index st < TIMER_PERIOD_RESET" and "timer_ticks evs = 1000"
  shows "unat (tick_index (on_timer s st)) = (unat (tick_index st) + 1) mod 1000000
       \<and> state_update_fires st evs = 20
       \<and> status_led_fires st evs = 200"
proof -
  have b: "unat (tick_index st) < 1000000"
    using assms(1) by (simp add: TIMER_PERIOD_RESET_def word_less_nat_alt)
  have "state_update_fires st evs = 20"
    unfolding state_update_fires_closed_form [OF b] assms(2) by (rule window_50)
  moreover have "status_led_fires st evs = 200"
    unfolding status_led_fires_closed_form [OF b] assms(2) by (rule window_5)
  ultimately show ?thesis
    using unat_on_timer_tick_index [OF b, of s] by simp
qed


theorem tick_cadence_witness:
  "tick_index ((initial_state 0 0 False)\<lparr>tick_index := 999990\<rparr>) < TIMER_PERIOD_RESET
   \<and> timer_ticks (replicate 1000 (Timer 1)) = 1000
   \<and> state_update_fires ((initial_state 0 0 False)\<lparr>tick_index := 999990\<rparr>)
        (replicate 1000 (Timer 1)) = 20
   \<and> status_led_fires ((initial_state 0 0 False)\<lparr>tick_index := 999990\<rparr>)
        (replicate 1000 (Timer 1)) = 200
   \<and> unat (tick_index (on_timer 1 ((initial_state 0 0 False)\<lparr>tick_index := 999999\<rparr>))) = 0"
proof -
  have a: "tick_index ((initial_state 0 0 False)\<lparr>tick_index := 999990\<rparr>) < TIMER_PERIOD_RESET"
    by (simp add: TIMER_PERIOD_RESET_def)
  have a': "tick_index ((initial_state 0 0 False)\<lparr>tick_index := 999999\<rparr>) < TIMER_PERIOD_RESET"
    by (simp add: TIMER_PERIOD_RESET_def)
  have b: "timer_ticks (replicate 1000 (Timer 1)) = 1000"
    by (simp add: timer_ticks_def)
  show ?thesis
    using a b tick_cadence [OF a b, of 1] tick_cadence [OF a' b, of 1]
    by simp
qed

section \<open>The connection state over event traces\<close>

lemma dispatch_connection_state_other:
  "\<not> is_timer ev \<Longrightarrow>
   client_connection_state (dispatch st ev) = client_connection_state st"
  by (cases ev)
     (simp_all add: on_tcp_server_accepted_def on_tcp_server_disconnect_def
       on_tcp_server_reconnect_def OS_UART_LOG_def Let_def
       on_tcp_server_receive_find receive_logs_frame process_digit_key_frame
       split: option.split)

lemma on_timer_connection_state_skip:
  "tick_index st mod TIMER_PERIOD_STATE_UPDATE \<noteq> 0 \<Longrightarrow>
   client_connection_state (on_timer s st) = client_connection_state st"
  by (simp add: on_timer_connection_state state_update_skip)

lemma no_state_update_snoc:
  "no_state_update st (evs @ [ev]) =
     (no_state_update st evs \<and>
      (is_timer ev \<longrightarrow> tick_index (run st evs) mod TIMER_PERIOD_STATE_UPDATE \<noteq> 0))"
proof (induction st evs rule: no_state_update.induct)
  case (1 st)
  show ?case by (cases ev) (simp_all add: run_def)
next
  case (2 st s evs)
  then show ?case by (simp add: run_def)
qed (simp_all add: run_def)

text \<open>
  What the code does ensure: SocketConnected is only ever set by a state-update tick that
  read a station count above 0 while the counter was non-zero, and it stays until the
  next state-update tick.
\<close>

lemma socket_connected_set_by_tick:
  assumes "client_connection_state st0 \<noteq> STATE_CLIENT_SOCKET_CONNECTED"
    and "client_connection_state (run st0 evs) = STATE_CLIENT_SOCKET_CONNECTED"
  shows "\<exists>pre s post. evs = pre @ Timer s # post
           \<and> tick_index (run st0 pre) mod TIMER_PERIOD_STATE_UPDATE = 0
           \<and> 0 < s \<and> open_tcp_connections (run st0 pre) \<noteq> 0
           \<and> no_state_update (run st0 (pre @ [Timer s])) post"
  using assms(2)
proof (induction evs rule: rev_induct)
  case Nil
  with assms(1) show ?case by (simp add: run_Nil)
next
  case (snoc ev evs)
  let ?st = "run st0 evs"
  show ?case
  proof (cases "is_timer ev \<and> tick_index ?st mod TIMER_PERIOD_STATE_UPDATE = 0")
    case True
    then obtain s where ev: "ev = Timer s" by (cases ev) simp_all
    from True have due: "tick_index ?st mod TIMER_PERIOD_STATE_UPDATE = 0" by simp
    have "client_connection_state (on_timer s ?st) = STATE_CLIENT_SOCKET_CONNECTED"
      using snoc.prems by (simp add: run_snoc ev)
    then have "s \<noteq> 0 \<and> open_tcp_connections ?st \<noteq> 0"
      using due
      by (simp add: on_timer_connection_state state_update_connection_state
          STATE_DISCONNECTED_def STATE_CLIENT_WIFI_CONNECTED_def
          STATE_CLIENT_SOCKET_CONNECTED_def split: if_splits)
    then have "0 < s" and "open_tcp_connections ?st \<noteq> 0"
      by (simp_all add: word_neq_0_conv)
    with due have "evs @ [ev] = evs @ Timer s # []
        \<and> tick_index (run st0 evs) mod TIMER_PERIOD_STATE_UPDATE = 0
        \<and> 0 < s \<and> open_tcp_connections (run st0 evs) \<noteq> 0
        \<and> no_state_update (run st0 (evs @ [Timer s])) []"
      by (simp add: ev)
    then show ?thesis
      by (intro exI [of _ evs] exI [of _ s] exI [of _ "[]"])
  next
    case False
    have same: "client_connection_state (dispatch ?st ev) = client_connection_state ?st"
    proof (cases "is_timer ev")
      case True
      then obtain s where ev: "ev = Timer s" by (cases ev) simp_all
      with True False show ?thesis by (simp add: on_timer_connection_state_skip)
    next
      case False
      then show ?thesis by (rule dispatch_connection_state_other)
    qed
    then have "client_connection_state ?st = STATE_CLIENT_SOCKET_CONNECTED"
      using snoc.prems by (simp add: run_snoc)
    from snoc.IH [OF this] obtain pre where
      "\<exists>s post. evs = pre @ Timer s # post
         \<and> tick_index (run st0 pre) mod TIMER_PERIOD_STATE_UPDATE = 0
         \<and> 0 < s \<and> open_tcp_connections (run st0 pre) \<noteq> 0
         \<and> no_state_update (run st0 (pre @ [Timer s])) post" ..
    then obtain s where
      "\<exists>post. evs = pre @ Timer s # post
         \<and> tick_index (run st0 pre) mod TIMER_PERIOD_STATE_UPDATE = 0
         \<and> 0 < s \<and> open_tcp_connections (run st0 pre) \<noteq> 0
         \<and> no_state_update (run st0 (pre @ [Timer s])) post" ..
    then obtain post where c:
      "evs = pre @ Timer s # post
         \<and> tick_index (run st0 pre) mod TIMER_PERIOD_STATE_UPDATE = 0
         \<and> 0 < s \<and> open_tcp_connections (run st0 pre) \<noteq> 0
         \<and> no_state_update (run st0 (pre @ [Timer s])) post" ..
    note evs = c [THEN conjunct1]
    note due = c [THEN conjunct2, THEN conjunct1]
    note pos = c [THEN conjunct2, THEN conjunct2, THEN conjunct1]
      c [THEN conjunct2, THEN conjunct2, THEN conjunct2, THEN conjunct1]
    note quiet = c [THEN conjunct2, THEN conjunct2, THEN conjunct2, THEN conjunct2]
    have r: "run (run st0 (pre @ [Timer s])) post = ?st"
      by (simp add: evs run_append [symmetric])
    have "no_state_update (run st0 (pre @ [Timer s])) (post @ [ev])"
      using quiet False by (auto simp add: no_state_update_snoc r)
    with evs due pos have "evs @ [ev] = pre @ Timer s # (post @ [ev])
        \<and> tick_index (run st0 pre) mod TIMER_PERIOD_STATE_UPDATE = 0
        \<and> 0 < s \<and> open_tcp_connections (run st0 pre) \<noteq> 0
        \<and> no_state_update (run st0 (pre @ [Timer s])) (post @ [ev])"
      by simp
    then show ?thesis
      by (intro exI [of _ pre] exI [of _ s] exI [of _ "post @ [ev]"])
  qed
qed

lemmas event_eval_defs =
  run_def drift_trace_def on_timer_def on_timer_state_update_def on_timer_status_led_def
  on_timer_advance_def on_tcp_server_accepted_def on_tcp_server_disconnect_def OS_UART_LOG_def
  gpio_output_set_def initial_state_def TIMER_PERIOD_STATE_UPDATE_def
  TIMER_PERIOD_WIFI_STATUS_LED_def TIMER_PERIOD_RESET_def STATE_DISCONNECTED_def
  STATE_CLIENT_WIFI_CONNECTED_def STATE_CLIENT_SOCKET_CONNECTED_def GPIO_PIN_LED_INT_def Let_def

lemma run_Cons: "run st (ev # evs) = run (dispatch st ev) evs"
  by (simp add: run_def)

lemma idle_ticks:
  "0 < unat (tick_index st) \<Longrightarrow> unat (tick_index st) + n \<le> 50 \<Longrightarrow>
   unat (tick_index (run st (replicate n (Timer s)))) = unat (tick_index st) + n
   \<and> open_tcp_connections (run st (replicate n (Timer s))) = open_tcp_connections st
   \<and> client_connection_state (run st (replicate n (Timer s))) = client_connection_state st"
proof (induction n arbitrary: st)
  case 0
  show ?case by (simp add: run_Nil)
next
  case (Suc n)
  have b: "unat (tick_index st) < 1000000" using Suc.prems by simp
  have t: "unat (tick_index (on_timer s st)) = unat (tick_index st) + 1"
    using unat_on_timer_tick_index [OF b, of s] Suc.prems by simp
  have "unat (tick_index st) mod 50 \<noteq> 0" using Suc.prems by simp
  then have skip: "on_timer_state_update s st = st"
    by (simp add: state_update_skip state_update_due_unat)
  have p: "0 < unat (tick_index (on_timer s st))"
    and q: "unat (tick_index (on_timer s st)) + n \<le> 50"
    using t Suc.prems by simp_all
  show ?case
    using Suc.IH [OF p q] t
    by (simp add: run_Cons on_timer_connection_state on_timer_open_tcp_connections skip)
qed

lemma drift_trace_state:
  "unat (tick_index (run (initial_state 0 0 False) drift_trace)) = 50
   \<and> open_tcp_connections (run (initial_state 0 0 False) drift_trace) = - 1"
proof -
  let ?st3 = "run (initial_state 0 0 False) [Accepted, Timer 0, Disconnect]"
  let ?st = "run (initial_state 0 0 False) drift_trace"
  have t3: "tick_index ?st3 = 1" and o3: "open_tcp_connections ?st3 = - 1"
    by (simp_all add: event_eval_defs word_le_nat_alt)
  have st: "?st = run ?st3 (replicate 49 (Timer 1))"
    unfolding drift_trace_def by (rule run_append)
  have p: "0 < unat (tick_index ?st3)" and q: "unat (tick_index ?st3) + 49 \<le> 50"
    by (simp_all add: t3)
  note idle = idle_ticks [OF p q, of 1]
  show ?thesis using idle by (simp add: st t3 o3)
qed

text \<open>
  Claim C4. The connection state should be SocketConnected only when the state-update
  tick that set it saw a station count above 0 and an open-connection count strictly above
  0, as the header comment of the source has it ("LED on - client socket connected").
  The code breaks this: the state-update block tests the signed counter for being
  non-zero. On \<open>drift_trace\<close>, which holds one accept and its one disconnect, no socket is
  open and the counter is -1 when the tick at index 50 reads one station; that tick sets
  SocketConnected.
\<close>

theorem drift_socket_connected_with_negative_count:
  "tick_index (run (initial_state 0 0 False) drift_trace) mod TIMER_PERIOD_STATE_UPDATE = 0
   \<and> sint (open_tcp_connections (run (initial_state 0 0 False) drift_trace)) = - 1
   \<and> client_connection_state (run (initial_state 0 0 False) (drift_trace @ [Timer 1]))
        = STATE_CLIENT_SOCKET_CONNECTED"
proof -
  let ?st = "run (initial_state 0 0 False) drift_trace"
  have t: "unat (tick_index ?st) = 50" and o: "open_tcp_connections ?st = - 1"
    using drift_trace_state by simp_all
  have due: "tick_index ?st mod TIMER_PERIOD_STATE_UPDATE = 0"
    by (simp add: state_update_due_unat t)
  have "client_connection_state (on_timer 1 ?st) = STATE_CLIENT_SOCKET_CONNECTED"
    by (simp add: on_timer_connection_state state_update_connection_state [OF due] o)
  then show ?thesis using due o by (simp add: run_snoc)
qed

text \<open>
  The same drift the other way round: when a new socket is accepted after
  \<open>drift_trace\<close>, one socket is open, the counter reads 0, and the tick at index 50
  sets WifiConnected.
\<close>

lemma drift_open_socket_reads_wifi_connected:
  "open_tcp_connections (run (initial_state 0 0 False) (drift_trace @ [Accepted])) = 0
   \<and> client_connection_state
        (run (initial_state 0 0 False) (drift_trace @ [Accepted, Timer 1]))
        = STATE_CLIENT_WIFI_CONNECTED"
proof -
  let ?st = "run (initial_state 0 0 False) drift_trace"
  let ?acc = "on_tcp_server_accepted ?st"
  have t: "unat (tick_index ?st) = 50" and o: "open_tcp_connections ?st = - 1"
    using drift_trace_state by simp_all
  have o': "open_tcp_connections ?acc = 0"
    by (simp add: on_tcp_server_accepted_def OS_UART_LOG_def Let_def o)
  have "tick_index ?acc = tick_index ?st"
    by (simp add: on_tcp_server_accepted_def OS_UART_LOG_def Let_def)
  then have due: "tick_index ?acc mod TIMER_PERIOD_STATE_UPDATE = 0"
    by (simp add: state_update_due_unat t)
  have w: "client_connection_state (on_timer 1 ?acc) = STATE_CLIENT_WIFI_CONNECTED"
    by (simp add: on_timer_connection_state state_update_connection_state [OF due] o')
  have r: "run (initial_state 0 0 False) (drift_trace @ [Accepted, Timer 1])
             = on_timer 1 ?acc"
    by (simp add: run_def)
  show ?thesis using o' w by (simp add: r run_snoc)
qed

end
